theory Spec2Isabelle
  imports Complex_Main
begin

section \<open>JavaScript strings\<close>

text \<open>
  A JavaScript string is a sequence of UTF-16 code units. The model uses \<open>string\<close>:
  a character stands for the code unit of the same number, so the strings covered are
  those whose code units are below 256. On these the built-in string methods the source
  calls are written out below as ECMAScript defines them.
\<close>

text \<open>\<^verbatim>\<open>s.substring(a, b)\<close>: both indices are clamped to the length and swapped when
  \<open>a > b\<close>.\<close>

definition substring :: "nat \<Rightarrow> nat \<Rightarrow> string \<Rightarrow> string" where
  "substring a b s = take (max a b - min a b) (drop (min a b) s)"

text \<open>ECMAScript white space and line terminators among the code units below 256:
  TAB, LF, VT, FF, CR, SP and NBSP.\<close>

definition isWhiteSpace :: "char \<Rightarrow> bool" where
  "isWhiteSpace c = (of_char c \<in> {9, 10, 11, 12, 13, 32, 160 :: nat})"

text \<open>\<^verbatim>\<open>s.trim()\<close>\<close>

definition trim :: "string \<Rightarrow> string" where
  "trim s = rev (dropWhile isWhiteSpace (rev (dropWhile isWhiteSpace s)))"

text \<open>\<^verbatim>\<open>s.toLowerCase()\<close>: the letters A-Z and the Latin-1 capitals
  (U+00C0 to U+00DE without the multiplication sign U+00D7) move up by 32.\<close>

definition lowerChar :: "char \<Rightarrow> char" where
  "lowerChar c =
     (let n = (of_char c :: nat) in
      if (65 \<le> n \<and> n \<le> 90) \<or> (192 \<le> n \<and> n \<le> 222 \<and> n \<noteq> 215)
      then char_of (n + 32) else c)"

definition toLowerCase :: "string \<Rightarrow> string" where
  "toLowerCase s = map lowerChar s"

text \<open>\<^verbatim>\<open>s.includes(t)\<close>: \<open>t\<close> occurs in \<open>s\<close> as a contiguous run.\<close>

fun includes_str :: "string \<Rightarrow> string \<Rightarrow> bool" where
  "includes_str [] t = (t = [])"
| "includes_str (c # s) t = (take (length t) (c # s) = t \<or> includes_str s t)"

text \<open>Truthiness of a string: every string but the empty one.\<close>

definition truthy :: "string \<Rightarrow> bool" where
  "truthy s = (s \<noteq> [])"

section \<open>The API service layer (services/api.ts)\<close>

definition BASE_URL :: string where
  "BASE_URL = ''https://cemenos-904719874116.us-central1.run.app''"

text \<open>JSON values, as far as the request bodies of the client need them. A request body
  is \<^verbatim>\<open>JSON.stringify\<close> of such a value; the model keeps the value itself.\<close>

datatype json =
    JString string
  | JNumber real
  | JBool bool
  | JNull
  | JArray "json list"
  | JObject "(string \<times> json) list"

record RequestInit =
  method' :: "string option"
  headers :: "(string \<times> string) list option"
  body :: "json option"

definition noOptions :: RequestInit where
  "noOptions = \<lparr>method' = None, headers = None, body = None\<rparr>"

text \<open>A call of \<^verbatim>\<open>fetch(url, finalOptions)\<close>.\<close>

record Request =
  url :: string
  init :: RequestInit

text \<open>
  What a \<^verbatim>\<open>fetch\<close> comes to: the promise rejects (a network exception), or it resolves to
  a response with a status; \<^verbatim>\<open>response.json()\<close> then gives the parsed body, or rejects when
  the body is not JSON (\<open>None\<close>).
\<close>

datatype 'a FetchResult =
    Rejected
  | Response nat "'a option"

datatype error =
    NetworkError
  | HttpError nat
  | JsonSyntaxError
  | Unsuccessful

text \<open>\<^verbatim>\<open>response.ok\<close>: the status is in the range 200-299.\<close>

definition ok :: "nat \<Rightarrow> bool" where
  "ok status = (200 \<le> status \<and> status \<le> 299)"

text \<open>The object spread \<^verbatim>\<open>{...a, ...b}\<close> on string-keyed objects: the keys of \<open>b\<close> win.\<close>

definition spread :: "(string \<times> string) list \<Rightarrow> (string \<times> string) list \<Rightarrow> (string \<times> string) list" where
  "spread a b = filter (\<lambda>(k, v). k \<notin> fst ` set b) a @ b"

definition defaultOptions :: "RequestInit \<Rightarrow> RequestInit" where
  "defaultOptions options =
     \<lparr>method' = None,
      headers = Some (spread [(''Content-Type'', ''application/json'')]
                        (case headers options of None \<Rightarrow> [] | Some h \<Rightarrow> h)),
      body = None\<rparr>"

text \<open>\<^verbatim>\<open>{ ...defaultOptions, ...options }\<close>: the default options define only \<open>headers\<close>.\<close>

definition finalOptions :: "RequestInit \<Rightarrow> RequestInit" where
  "finalOptions options =
     \<lparr>method' = method' options,
      headers = (case headers options of
                   None \<Rightarrow> headers (defaultOptions options)
                 | Some h \<Rightarrow> Some h),
      body = body options\<rparr>"

text \<open>The request \<open>makeRequest\<close> hands to \<^verbatim>\<open>fetch\<close>.\<close>

definition requestOf :: "string \<Rightarrow> RequestInit \<Rightarrow> Request" where
  "requestOf endpoint options = \<lparr>url = BASE_URL @ endpoint, init = finalOptions options\<rparr>"

text \<open>
  \<open>makeRequest\<close>: the network is the function \<open>fetch\<close>. The result is the one call of
  \<^verbatim>\<open>fetch\<close> it makes, and what the promise settles to. Every exception raised inside the
  \<^verbatim>\<open>try\<close> block is logged and thrown again, so each of them is an error result.
\<close>

definition makeRequest ::
  "(Request \<Rightarrow> 'a FetchResult) \<Rightarrow> string \<Rightarrow> RequestInit \<Rightarrow> Request \<times> (error + 'a)" where
  "makeRequest fetch endpoint options =
     (requestOf endpoint options,
      case fetch (requestOf endpoint options) of
        Rejected \<Rightarrow> Inl NetworkError
      | Response status parsed \<Rightarrow>
          if \<not> ok status then Inl (HttpError status)
          else (case parsed of
                  None \<Rightarrow> Inl JsonSyntaxError
                | Some data \<Rightarrow> Inr data))"

record CementOSAPI =
  sessionId :: string

text \<open>\<^verbatim>\<open>a || b\<close> on an optional string: an absent or empty \<open>a\<close> is falsy.\<close>

definition orElse :: "string option \<Rightarrow> string \<Rightarrow> string" where
  "orElse a b = (case a of None \<Rightarrow> b | Some c \<Rightarrow> if truthy c then c else b)"

definition sendMessage ::
  "(Request \<Rightarrow> 'a FetchResult) \<Rightarrow> CementOSAPI \<Rightarrow> string \<Rightarrow> string option
     \<Rightarrow> Request \<times> (error + 'a)" where
  "sendMessage fetch api message customSessionId =
     makeRequest fetch ''/chat''
       \<lparr>method' = Some ''POST'',
        headers = None,
        body = Some (JObject [(''message'', JString message),
                              (''session_id'', JString (orElse customSessionId (sessionId api)))])\<rparr>"

text \<open>\<open>optimize\<close>: the argument is the request object as a JSON value.\<close>

definition optimize :: "(Request \<Rightarrow> 'a FetchResult) \<Rightarrow> json \<Rightarrow> Request \<times> (error + 'a)" where
  "optimize fetch request =
     makeRequest fetch ''/optimize'' \<lparr>method' = Some ''POST'', headers = None, body = Some request\<rparr>"

definition healthCheck :: "(Request \<Rightarrow> 'a FetchResult) \<Rightarrow> Request \<times> (error + 'a)" where
  "healthCheck fetch = makeRequest fetch ''/health'' noOptions"

definition getSystemStatus :: "(Request \<Rightarrow> 'a FetchResult) \<Rightarrow> Request \<times> (error + 'a)" where
  "getSystemStatus fetch = makeRequest fetch ''/status'' noOptions"

definition getCapabilities :: "(Request \<Rightarrow> 'a FetchResult) \<Rightarrow> Request \<times> (error + 'a)" where
  "getCapabilities fetch = makeRequest fetch ''/capabilities'' noOptions"

definition getSessions :: "(Request \<Rightarrow> 'a FetchResult) \<Rightarrow> Request \<times> (error + 'a)" where
  "getSessions fetch = makeRequest fetch ''/sessions'' noOptions"

definition deleteSession ::
  "(Request \<Rightarrow> 'a FetchResult) \<Rightarrow> CementOSAPI \<Rightarrow> string option \<Rightarrow> Request \<times> (error + 'a)" where
  "deleteSession fetch api sessionId' =
     makeRequest fetch (''/sessions/'' @ orElse sessionId' (sessionId api))
       \<lparr>method' = Some ''DELETE'', headers = None, body = None\<rparr>"

definition getRootInfo :: "(Request \<Rightarrow> 'a FetchResult) \<Rightarrow> Request \<times> (error + 'a)" where
  "getRootInfo fetch = makeRequest fetch ''/'' noOptions"

definition getCurrentSessionId :: "CementOSAPI \<Rightarrow> string" where
  "getCurrentSessionId api = sessionId api"

section \<open>The session identifier\<close>

text \<open>Local storage: a map from keys to strings; \<^verbatim>\<open>getItem\<close> of a missing key is null.\<close>

type_synonym Storage = "string \<rightharpoonup> string"

text \<open>
  \<^verbatim>\<open>'cemenos_' + Math.random().toString(36).substring(2, 15)\<close>: the argument is the string
  \<^verbatim>\<open>Math.random().toString(36)\<close> that the runtime's random generator gave.
\<close>

definition freshSessionId :: "string \<Rightarrow> string" where
  "freshSessionId random36 = ''cemenos_'' @ substring 2 15 random36"

definition getSessionId :: "string \<Rightarrow> Storage \<Rightarrow> string \<times> Storage" where
  "getSessionId random36 localStorage =
     (case localStorage ''cemenos_session_id'' of
        Some stored \<Rightarrow>
          if truthy stored then (stored, localStorage)
          else (freshSessionId random36,
                localStorage(''cemenos_session_id'' \<mapsto> freshSessionId random36))
      | None \<Rightarrow>
          (freshSessionId random36,
           localStorage(''cemenos_session_id'' \<mapsto> freshSessionId random36)))"

text \<open>The constructor, run when the module is loaded: once per page load.\<close>

definition constructor :: "string \<Rightarrow> Storage \<Rightarrow> CementOSAPI \<times> Storage" where
  "constructor random36 localStorage =
     (let (sid, localStorage') = getSessionId random36 localStorage
      in (\<lparr>sessionId = sid\<rparr>, localStorage'))"

definition resetSession :: "string \<Rightarrow> CementOSAPI \<times> Storage \<Rightarrow> CementOSAPI \<times> Storage" where
  "resetSession random36 w =
     (case w of (api, localStorage) \<Rightarrow>
        (api\<lparr>sessionId := freshSessionId random36\<rparr>,
         localStorage(''cemenos_session_id'' \<mapsto> freshSessionId random36)))"

text \<open>
  What the rest of the program can do with the client, one event per call, and the page
  load that runs the constructor on the storage the last visit left.
\<close>

datatype Event =
    PageLoad string
  | SendMessage string "string option"
  | Optimize json
  | HealthCheck
  | GetSystemStatus
  | GetCapabilities
  | GetSessions
  | DeleteSession "string option"
  | GetRootInfo
  | GetCurrentSessionId
  | ResetSession string

fun isReset :: "Event \<Rightarrow> bool" where
  "isReset (ResetSession r) = True"
| "isReset e = False"

text \<open>One event: the client and the storage after it, and the requests it sent.\<close>

fun step ::
  "(Request \<Rightarrow> json FetchResult) \<Rightarrow> Event \<Rightarrow> CementOSAPI \<times> Storage
     \<Rightarrow> (CementOSAPI \<times> Storage) \<times> Request list" where
  "step fetch (PageLoad random36) (api, localStorage) = (constructor random36 localStorage, [])"
| "step fetch (SendMessage message custom) (api, localStorage) =
     ((api, localStorage), [fst (sendMessage fetch api message custom)])"
| "step fetch (Optimize request) (api, localStorage) =
     ((api, localStorage), [fst (optimize fetch request)])"
| "step fetch HealthCheck (api, localStorage) = ((api, localStorage), [fst (healthCheck fetch)])"
| "step fetch GetSystemStatus (api, localStorage) =
     ((api, localStorage), [fst (getSystemStatus fetch)])"
| "step fetch GetCapabilities (api, localStorage) =
     ((api, localStorage), [fst (getCapabilities fetch)])"
| "step fetch GetSessions (api, localStorage) = ((api, localStorage), [fst (getSessions fetch)])"
| "step fetch (DeleteSession sid) (api, localStorage) =
     ((api, localStorage), [fst (deleteSession fetch api sid)])"
| "step fetch GetRootInfo (api, localStorage) = ((api, localStorage), [fst (getRootInfo fetch)])"
| "step fetch GetCurrentSessionId (api, localStorage) = ((api, localStorage), [])"
| "step fetch (ResetSession random36) (api, localStorage) =
     (resetSession random36 (api, localStorage), [])"

fun run ::
  "(Request \<Rightarrow> json FetchResult) \<Rightarrow> Event list \<Rightarrow> CementOSAPI \<times> Storage
     \<Rightarrow> (CementOSAPI \<times> Storage) \<times> Request list" where
  "run fetch [] w = (w, [])"
| "run fetch (e # es) w =
     (let (w1, sent1) = step fetch e w; (w2, sent2) = run fetch es w1
      in (w2, sent1 @ sent2))"

text \<open>The stored identifier is the client's, and it is truthy.\<close>

definition stored_inv :: "CementOSAPI \<times> Storage \<Rightarrow> bool" where
  "stored_inv w =
     (snd w ''cemenos_session_id'' = Some (sessionId (fst w)) \<and> sessionId (fst w) \<noteq> [])"

section \<open>Toasts\<close>

record Toast =
  title :: string
  description :: string
  variant :: "string option"

section \<open>The chat widget (components/FloatingChatbot.tsx)\<close>

record ChatResponse =
  success :: bool
  response :: string
  session_id :: string
  timestamp :: string
  processing_time_ms :: real

datatype Sender = User | Bot

record ChatMessage =
  type :: Sender
  message :: string
  timestamp :: string
  processingTime :: "real option"
  isError :: "bool option"

record FloatingChatbot =
  isOpen :: bool
  isMinimized :: bool
  message :: string
  isLoading :: bool
  isConnected :: bool
  chatHistory :: "ChatMessage list"

subsection \<open>Numbers of the runtime\<close>

text \<open>
  \<^verbatim>\<open>Math.random()\<close> gives an IEEE 754 double that is at least 0 and less than 1. Every such
  double is \<open>mant / 2 ^ scale\<close> for a mantissa below \<open>2 ^ 53 = 9007199254740992\<close> and a
  scale of at most 1074, and every such quotient below 1 is a double.
\<close>

record Double =
  mant :: nat
  scale :: nat

definition valueOf :: "Double \<Rightarrow> real" where
  "valueOf d = real (mant d) / 2 ^ scale d"

definition isRandomDouble :: "Double \<Rightarrow> bool" where
  "isRandomDouble d =
     (mant d < 9007199254740992 \<and> scale d \<le> 1074 \<and> mant d < 2 ^ scale d)"

text \<open>The number of low bits a natural number loses when it is rounded to the 53 bits of
  a double's mantissa.\<close>

function shiftFor :: "nat \<Rightarrow> nat" where
  "shiftFor n = (if n < 9007199254740992 then 0 else Suc (shiftFor (n div 2)))"
  by pat_completeness auto
termination
  by (relation "measure id") auto

declare shiftFor.simps [simp del]

text \<open>\<open>n / 2 ^ s\<close> rounded to the nearest natural number, a tie to the even one: the
  rounding mode of the runtime's arithmetic.\<close>

definition roundHalfEven :: "nat \<Rightarrow> nat \<Rightarrow> nat" where
  "roundHalfEven n s =
     (let q = n div 2 ^ s; rest = n mod 2 ^ s
      in if 2 ^ s < 2 * rest \<or> (2 * rest = 2 ^ s \<and> odd q) then Suc q else q)"

text \<open>
  The double product \<^verbatim>\<open>d * len\<close> of a double \<open>d\<close> as above and a length \<open>len\<close>: the exact
  product \<open>mant d * len / 2 ^ scale d\<close>, its numerator rounded to 53 significant bits. The
  result is the numerator and the scale of the product.
\<close>

definition multiply :: "Double \<Rightarrow> nat \<Rightarrow> nat \<times> nat" where
  "multiply d len =
     (let n = mant d * len; s = shiftFor n
      in (roundHalfEven n s * 2 ^ s, scale d))"

text \<open>\<^verbatim>\<open>Math.floor\<close> of such a product.\<close>

definition Math_floor :: "nat \<times> nat \<Rightarrow> nat" where
  "Math_floor x = fst x div 2 ^ snd x"

text \<open>
  What the handlers read from the runtime: the network, the value of \<^verbatim>\<open>Math.random()\<close>,
  \<^verbatim>\<open>new Date().toLocaleTimeString()\<close> when the handler starts and when the reply is there,
  and \<^verbatim>\<open>new Date(t).toLocaleTimeString()\<close> as a function of \<open>t\<close>.
\<close>

record Runtime =
  fetch :: "Request \<Rightarrow> ChatResponse FetchResult"
  Math_random :: Double
  timeAtSend :: string
  timeAtReply :: string
  localeTimeOf :: "string \<Rightarrow> string"

text \<open>What a handler does besides updating the state: requests and toasts.\<close>

record Effects =
  requests :: "Request list"
  toasts :: "Toast list"

definition noEffects :: Effects where
  "noEffects = \<lparr>requests = [], toasts = []\<rparr>"

definition checkAPIConnection ::
  "(Request \<Rightarrow> 'a FetchResult) \<Rightarrow> FloatingChatbot \<Rightarrow> FloatingChatbot \<times> Effects" where
  "checkAPIConnection net s =
     (case healthCheck net of
        (request, Inr data) \<Rightarrow>
          (s\<lparr>isConnected := True\<rparr>, \<lparr>requests = [request], toasts = []\<rparr>)
      | (request, Inl err) \<Rightarrow>
          (s\<lparr>isConnected := False\<rparr>,
           \<lparr>requests = [request],
            toasts = [\<lparr>title = ''API Connection Issue'',
                       description = ''Using offline mode. Some features may be limited.'',
                       variant = Some ''destructive''\<rparr>]\<rparr>))"

definition responses :: "string list" where
  "responses =
     [''Based on current data, I recommend increasing alternative fuel usage by 5% to reduce CO2 emissions.'',
      ''Your energy efficiency is at 87.5%. I can help optimize thermal settings to reach 90%.'',
      ''I notice temperature fluctuations in the kiln. Would you like me to analyze the thermal patterns?'',
      ''Quality parameters look good. The recent C3S content adjustment is showing positive results.'',
      ''I can run a full plant optimization if you'd like. This typically improves efficiency by 3-5%.'',
      ''Your NOx emissions are within limits. Alternative fuel ratio is performing well at current levels.'',
      ''I've detected an opportunity to reduce energy consumption by optimizing mill operations. Shall I proceed?'']"

text \<open>\<^verbatim>\<open>responses[Math.floor(Math.random() * responses.length)]\<close> inside a template literal:
  an index out of range reads \<^verbatim>\<open>undefined\<close>, which the template prints as such.\<close>

definition pickResponse :: "Double \<Rightarrow> string" where
  "pickResponse random =
     (let i = Math_floor (multiply random (length responses))
      in if i < length responses then responses ! i else ''undefined'')"

definition apology :: string where
  "apology = ''I apologize, but I'm experiencing technical difficulties. Please try again in a moment, or contact support if the issue persists.''"

text \<open>The \<^verbatim>\<open>catch\<close> block of \<open>handleSend\<close>, followed by its \<^verbatim>\<open>finally\<close>.\<close>

definition chatError :: "Runtime \<Rightarrow> Request list \<Rightarrow> FloatingChatbot \<Rightarrow> FloatingChatbot \<times> Effects" where
  "chatError rt sent s =
     (s\<lparr>chatHistory := chatHistory s @
           [\<lparr>type = Bot, message = apology, timestamp = timeAtReply rt,
             processingTime = None, isError = Some True\<rparr>],
        isLoading := False\<rparr>,
      \<lparr>requests = sent,
       toasts = [\<lparr>title = ''Chat Error'',
                  description = ''Failed to get response from AI assistant'',
                  variant = Some ''destructive''\<rparr>]\<rparr>)"

text \<open>
  \<open>handleSend\<close>, from the click to the end of its \<^verbatim>\<open>finally\<close> block. The state setters of the
  handler are applied in order; \<open>isConnected\<close> and \<open>message\<close> are the values of the render the
  handler was created in.
\<close>

definition handleSend :: "Runtime \<Rightarrow> CementOSAPI \<Rightarrow> FloatingChatbot \<Rightarrow> FloatingChatbot \<times> Effects" where
  "handleSend rt api s =
     (if \<not> truthy (trim (FloatingChatbot.message s)) \<or> isLoading s then (s, noEffects)
      else
        let userMessage = \<lparr>type = User, message = FloatingChatbot.message s,
                            timestamp = timeAtSend rt, processingTime = None, isError = None\<rparr>;
            currentMessage = FloatingChatbot.message s;
            s1 = s\<lparr>chatHistory := chatHistory s @ [userMessage], isLoading := True, message := []\<rparr>
        in if isConnected s then
             (case sendMessage (fetch rt) api currentMessage None of
                (request, Inr response') \<Rightarrow>
                  if success response' then
                    (s1\<lparr>chatHistory := chatHistory s1 @
                          [\<lparr>type = Bot, message = response response',
                            timestamp = localeTimeOf rt (ChatResponse.timestamp response'),
                            processingTime = Some (processing_time_ms response'),
                            isError = None\<rparr>],
                        isLoading := False\<rparr>,
                     \<lparr>requests = [request], toasts = []\<rparr>)
                  else chatError rt [request] s1
              | (request, Inl err) \<Rightarrow> chatError rt [request] s1)
           else
             (s1\<lparr>chatHistory := chatHistory s1 @
                   [\<lparr>type = Bot, message = ''[OFFLINE MODE] '' @ pickResponse (Math_random rt),
                     timestamp = timeAtReply rt, processingTime = None, isError = None\<rparr>],
                 isLoading := False\<rparr>,
              noEffects))"

section \<open>Concrete inputs\<close>

text \<open>A network that is down, and one that answers every request alike.\<close>

definition unreachable :: "Request \<Rightarrow> 'a FetchResult" where
  "unreachable request = Rejected"

definition respond :: "nat \<Rightarrow> 'a option \<Rightarrow> Request \<Rightarrow> 'a FetchResult" where
  "respond status parsed request = Response status parsed"

text \<open>The widget as its \<^verbatim>\<open>useState\<close> calls create it; \<open>now\<close> is the local time then.\<close>

definition initialChatbot :: "string \<Rightarrow> FloatingChatbot" where
  "initialChatbot now =
     \<lparr>isOpen = False, isMinimized = False, message = [], isLoading = False, isConnected = False,
      chatHistory =
        [\<lparr>type = Bot,
          message = ''Hello! I'm CementOS AI Assistant. I can help you with plant operations, optimization, troubleshooting, and performance analysis. How can I assist you today?'',
          timestamp = now, processingTime = None, isError = None\<rparr>]\<rparr>"

text \<open>The doubles 0.5 and 0.5714285714285714, the double next to 4/7.\<close>

definition half :: Double where
  "half = \<lparr>mant = 1, scale = 1\<rparr>"

definition fourSevenths :: Double where
  "fourSevenths = \<lparr>mant = 2573485501354569, scale = 52\<rparr>"

definition runtimeWith :: "(Request \<Rightarrow> ChatResponse FetchResult) \<Rightarrow> Double \<Rightarrow> Runtime" where
  "runtimeWith net random =
     \<lparr>fetch = net, Math_random = random, timeAtSend = ''10:15:00 AM'',
      timeAtReply = ''10:15:01 AM'', localeTimeOf = (\<lambda>t. t)\<rparr>"

section \<open>The profile modal (components/modals/ProfileModal.tsx)\<close>

record TeamMember =
  name :: string
  role :: string
  email :: string
  phone :: string
  experience :: string
  department :: string

text \<open>The state \<open>handleAddMember\<close> reads and writes; the rest of the component's state is
  the record's extension, which the handler passes on as it is.\<close>

record ProfileModal =
  teamMembers :: "TeamMember list"
  isAddingMember :: bool
  newMember :: TeamMember

definition handleAddMember :: "'a ProfileModal_scheme \<Rightarrow> 'a ProfileModal_scheme \<times> Toast list" where
  "handleAddMember s =
     (if truthy (name (newMember s)) \<and> truthy (role (newMember s)) \<and> truthy (email (newMember s))
      then
        (s\<lparr>teamMembers := teamMembers s @ [newMember s],
           newMember := \<lparr>name = [], role = [], email = [], phone = [], experience = [],
                          department = []\<rparr>,
           isAddingMember := False\<rparr>,
         [\<lparr>title = ''Team Member Added'',
           description = name (newMember s) @ '' has been successfully added to the management team.'',
           variant = None\<rparr>])
      else
        (s,
         [\<lparr>title = ''Missing Information'',
           description = ''Please fill in all required fields (Name, Role, Email).'',
           variant = Some ''destructive''\<rparr>]))"

section \<open>The saved-scenarios manager\<close>

datatype Category = Optimization | StressTest | Maintenance | Emergency

fun categoryKey :: "Category \<Rightarrow> string" where
  "categoryKey Optimization = ''optimization''"
| "categoryKey StressTest = ''stress-test''"
| "categoryKey Maintenance = ''maintenance''"
| "categoryKey Emergency = ''emergency''"

datatype Status = Draft | Validated | Production

record Parameters =
  objective :: string
  duration :: string
  speed :: string
  safetyLimits :: bool
  autoStop :: bool

record Expected =
  value' :: string
  change :: string

record ExpectedResults =
  quality :: Expected
  energy :: Expected
  emissions :: Expected
  cost :: Expected

record LastResults =
  quality :: real
  energy :: real
  emissions :: real
  cost :: real
  timestamp :: string

record SavedScenario =
  id' :: string
  name :: string
  description :: string
  created :: string
  modified :: string
  author :: string
  category :: Category
  status :: Status
  successRate :: real
  runs :: real
  averageDuration :: string
  tags :: "string list"
  parameters :: Parameters
  expectedResults :: ExpectedResults
  lastResults :: "LastResults option"

text \<open>The first of the scenarios the component starts with.\<close>

definition energyCrisisMode :: SavedScenario where
  "energyCrisisMode =
     \<lparr>id' = ''1'',
      name = ''Energy Crisis Mode'',
      description = ''Optimizes for maximum energy efficiency during power shortages'',
      created = ''2 days ago'',
      modified = ''1 hour ago'',
      author = ''Priya Sharma'',
      category = Optimization,
      status = Production,
      successRate = 94,
      runs = 23,
      averageDuration = ''6h 15m'',
      tags = [''energy'', ''efficiency'', ''crisis''],
      parameters = \<lparr>objective = ''efficiency'', duration = ''8 hours'', speed = ''5x'',
                     safetyLimits = True, autoStop = True\<rparr>,
      expectedResults =
        \<lparr>ExpectedResults.quality = \<lparr>value' = ''92%'', change = ''-2%''\<rparr>,
         ExpectedResults.energy = \<lparr>value' = ''3.1 GJ/ton'', change = ''-8%''\<rparr>,
         ExpectedResults.emissions = \<lparr>value' = ''122 kg/ton'', change = ''+3%''\<rparr>,
         ExpectedResults.cost = \<lparr>value' = ''$78/ton'', change = ''-6%''\<rparr>\<rparr>,
      lastResults =
        Some \<lparr>quality = 91.8, energy = 3.12, emissions = 123, cost = 77.5,
              timestamp = ''2024-01-15 14:30''\<rparr>\<rparr>"

definition filteredScenarios :: "SavedScenario list \<Rightarrow> string \<Rightarrow> string \<Rightarrow> SavedScenario list" where
  "filteredScenarios scenarios selectedCategory searchQuery =
     filter (\<lambda>scenario.
       let matchesCategory =
             (selectedCategory = ''all'' \<or> categoryKey (category scenario) = selectedCategory);
           matchesSearch =
             (includes_str (toLowerCase (SavedScenario.name scenario)) (toLowerCase searchQuery)
              \<or> includes_str (toLowerCase (SavedScenario.description scenario))
                   (toLowerCase searchQuery)
              \<or> list_ex (\<lambda>tag. includes_str (toLowerCase tag) (toLowerCase searchQuery))
                   (tags scenario))
       in matchesCategory \<and> matchesSearch) scenarios"

text \<open>\<open>handleDuplicateScenario\<close>: \<open>now\<close> is \<^verbatim>\<open>Date.now().toString()\<close>, \<open>prev\<close> the list the
  state setter is applied to.\<close>

definition handleDuplicateScenario ::
  "string \<Rightarrow> SavedScenario \<Rightarrow> SavedScenario list \<Rightarrow> SavedScenario list" where
  "handleDuplicateScenario now scenario prev =
     (scenario\<lparr>id' := now,
               name := SavedScenario.name scenario @ '' (Copy)'',
               created := ''Just now'',
               modified := ''Just now'',
               status := Draft,
               runs := 0,
               successRate := 0\<rparr>) # prev"

section \<open>The API status indicator (components/dashboard/APIStatusIndicator.tsx)\<close>

record APIStatusIndicator =
  isConnected :: "bool option"
  isChecking :: bool
  lastChecked :: string

text \<open>\<open>checkConnection\<close>: \<open>now\<close> is \<^verbatim>\<open>new Date().toLocaleTimeString()\<close> when the health check
  settles. The result is the state after the \<^verbatim>\<open>finally\<close> block and the request made.\<close>

definition checkConnection ::
  "(Request \<Rightarrow> 'a FetchResult) \<Rightarrow> string \<Rightarrow> APIStatusIndicator \<Rightarrow> APIStatusIndicator \<times> Request" where
  "checkConnection net now s =
     (let s1 = s\<lparr>isChecking := True\<rparr>
      in case healthCheck net of
           (request, Inr data) \<Rightarrow>
             (s1\<lparr>isConnected := Some True, lastChecked := now, isChecking := False\<rparr>, request)
         | (request, Inl err) \<Rightarrow>
             (s1\<lparr>isConnected := Some False, lastChecked := now, isChecking := False\<rparr>, request))"

text \<open>
  The page the component lives in, with a clock in milliseconds and the interval timers
  of the runtime. Every timer of this model calls \<open>checkConnection\<close>: it is the only
  callback the component registers. \<open>healthChecks\<close> lists the health checks made so far,
  each with the time it was made at.
\<close>

record Interval =
  handle :: nat
  delay :: nat
  due :: nat

record Page =
  clock :: nat
  intervals :: "Interval list"
  nextHandle :: nat
  indicator :: APIStatusIndicator
  healthChecks :: "(nat \<times> Request) list"

text \<open>The network and the local time, as functions of the clock.\<close>

record World =
  netAt :: "nat \<Rightarrow> Request \<Rightarrow> json FetchResult"
  localeTimeAt :: "nat \<Rightarrow> string"

definition callCheckConnection :: "World \<Rightarrow> Page \<Rightarrow> Page" where
  "callCheckConnection world p =
     (let (s, request) =
            checkConnection (netAt world (clock p)) (localeTimeAt world (clock p)) (indicator p)
      in p\<lparr>indicator := s, healthChecks := healthChecks p @ [(clock p, request)]\<rparr>)"

text \<open>\<^verbatim>\<open>setInterval(checkConnection, ms)\<close> and \<^verbatim>\<open>clearInterval(id)\<close>.\<close>

definition setInterval :: "nat \<Rightarrow> Page \<Rightarrow> nat \<times> Page" where
  "setInterval ms p =
     (nextHandle p,
      p\<lparr>intervals := intervals p @ [\<lparr>handle = nextHandle p, delay = ms, due = clock p + ms\<rparr>],
        nextHandle := Suc (nextHandle p)\<rparr>)"

definition clearInterval :: "nat \<Rightarrow> Page \<Rightarrow> Page" where
  "clearInterval h p = p\<lparr>intervals := filter (\<lambda>i. handle i \<noteq> h) (intervals p)\<rparr>"

text \<open>The effect of \<^verbatim>\<open>useEffect(..., [])\<close>, run once when the component mounts; its result is
  the timer that the cleanup function holds.\<close>

definition mount :: "World \<Rightarrow> Page \<Rightarrow> nat \<times> Page" where
  "mount world p = setInterval 30000 (callCheckConnection world p)"

text \<open>The cleanup function, run when the component unmounts.\<close>

definition unmount :: "nat \<Rightarrow> Page \<Rightarrow> Page" where
  "unmount interval p = clearInterval interval p"

text \<open>One millisecond passes: every timer that is due calls back and is set again.\<close>

fun fireDue :: "World \<Rightarrow> Interval list \<Rightarrow> Page \<Rightarrow> Interval list \<times> Page" where
  "fireDue world [] p = ([], p)"
| "fireDue world (i # rest) p =
     (if due i \<le> clock p then
        (let (rest', p') = fireDue world rest (callCheckConnection world p)
         in (i\<lparr>due := clock p + delay i\<rparr> # rest', p'))
      else
        (let (rest', p') = fireDue world rest p
         in (i # rest', p')))"

definition tick :: "World \<Rightarrow> Page \<Rightarrow> Page" where
  "tick world p =
     (let p1 = p\<lparr>clock := Suc (clock p)\<rparr>;
          (timers, p2) = fireDue world (intervals p1) p1
      in p2\<lparr>intervals := timers\<rparr>)"

primrec advance :: "World \<Rightarrow> nat \<Rightarrow> Page \<Rightarrow> Page" where
  "advance world 0 p = p"
| "advance world (Suc n) p = tick world (advance world n p)"

text \<open>The indicator and its page at the start, with a network that is down.\<close>

definition initialPage :: Page where
  "initialPage =
     \<lparr>clock = 0, intervals = [], nextHandle = 1,
      indicator = \<lparr>isConnected = None, isChecking = False, lastChecked = []\<rparr>,
      healthChecks = []\<rparr>"

definition offlineWorld :: World where
  "offlineWorld = \<lparr>netAt = (\<lambda>t. unreachable), localeTimeAt = (\<lambda>t. [])\<rparr>"

section \<open>Auxiliary facts\<close>

subsection \<open>Strings\<close>

lemma trim_blank: "\<forall>c\<in>set m. isWhiteSpace c \<Longrightarrow> trim m = []"
  by (auto simp: trim_def dest: set_dropWhileD)

lemma trim_nonblank: "\<exists>c\<in>set m. \<not> isWhiteSpace c \<Longrightarrow> trim m \<noteq> []"
proof -
  assume a: "\<exists>c\<in>set m. \<not> isWhiteSpace c"
  let ?d = "dropWhile isWhiteSpace m"
  from a have ne: "?d \<noteq> []" by simp
  then have "\<not> isWhiteSpace (hd ?d)" by (rule hd_dropWhile)
  moreover from ne have "hd ?d \<in> set (rev ?d)" by simp
  ultimately have "dropWhile isWhiteSpace (rev ?d) \<noteq> []"
    by auto
  then show ?thesis by (simp add: trim_def)
qed

lemma includes_empty: "includes_str s [] = True"
  by (cases s) simp_all

subsection \<open>The session identifier\<close>

lemma freshSessionId_nonempty: "freshSessionId r \<noteq> []"
  by (simp add: freshSessionId_def)

lemma constructor_inv: "stored_inv (constructor r ls)"
  by (auto simp: stored_inv_def constructor_def getSessionId_def truthy_def freshSessionId_nonempty
      split: option.splits)

lemma constructor_frame: "k \<noteq> ''cemenos_session_id'' \<Longrightarrow> snd (constructor r ls) k = ls k"
  by (auto simp: constructor_def getSessionId_def split: option.splits)

lemma constructor_stored: "stored_inv (api, ls) \<Longrightarrow> constructor r ls = (api, ls)"
  by (auto simp: stored_inv_def constructor_def getSessionId_def truthy_def split: option.splits)

lemma resetSession_inv: "stored_inv (resetSession r w)"
  by (cases w) (simp add: stored_inv_def resetSession_def freshSessionId_nonempty)

lemma resetSession_frame: "k \<noteq> ''cemenos_session_id'' \<Longrightarrow> snd (resetSession r w) k = snd w k"
  by (cases w) (simp add: resetSession_def)

lemma step_inv: "stored_inv w \<Longrightarrow> stored_inv (fst (step net e w))"
  by (cases e; cases w) (simp_all add: constructor_inv resetSession_inv)

lemma step_frame: "k \<noteq> ''cemenos_session_id'' \<Longrightarrow> snd (fst (step net e w)) k = snd w k"
  by (cases e; cases w) (simp_all add: constructor_frame resetSession_frame)

lemma step_same: "stored_inv w \<Longrightarrow> \<not> isReset e \<Longrightarrow> fst (step net e w) = w"
  by (cases e; cases w) (simp_all add: constructor_stored)

lemma run_inv: "stored_inv w \<Longrightarrow> stored_inv (fst (run net es w))"
proof (induction es arbitrary: w)
  case Nil
  then show ?case by simp
next
  case (Cons e es)
  from Cons.prems have "stored_inv (fst (step net e w))" by (rule step_inv)
  then have "stored_inv (fst (run net es (fst (step net e w))))" by (rule Cons.IH)
  then show ?case by (simp add: split_beta Let_def)
qed

lemma run_frame: "k \<noteq> ''cemenos_session_id'' \<Longrightarrow> snd (fst (run net es w)) k = snd w k"
  by (induction es arbitrary: w) (simp_all add: split_beta Let_def step_frame)

lemma run_same: "stored_inv w \<Longrightarrow> \<forall>e\<in>set es. \<not> isReset e \<Longrightarrow> fst (run net es w) = w"
  by (induction es arbitrary: w) (simp_all add: split_beta Let_def step_same)

lemma sendMessage_session_id:
  "fst (sendMessage net api text None) =
     \<lparr>url = BASE_URL @ ''/chat'',
      init = \<lparr>method' = Some ''POST'',
              headers = Some [(''Content-Type'', ''application/json'')],
              body = Some (JObject
                [(''message'', JString text), (''session_id'', JString (sessionId api))])\<rparr>\<rparr>"
  by (simp add: sendMessage_def makeRequest_def requestOf_def finalOptions_def defaultOptions_def
      spread_def orElse_def)

subsection \<open>The chat widget\<close>

lemma length_responses: "length responses = 7"
  by (simp add: responses_def)

lemma shiftFor_small: "n < 9007199254740992 \<Longrightarrow> shiftFor n = 0"
  by (simp add: shiftFor.simps)

lemma shiftFor_large: "9007199254740992 \<le> n \<Longrightarrow> shiftFor n = Suc (shiftFor (n div 2))"
  by (simp add: shiftFor.simps [of n])

lemma shiftFor_cases:
  assumes "n < 72057594037927936"
  shows "(n < 9007199254740992 \<and> shiftFor n = 0)
       \<or> (9007199254740992 \<le> n \<and> shiftFor n = 1)
       \<or> (9007199254740992 \<le> n \<and> shiftFor n = 2)
       \<or> (9007199254740992 \<le> n \<and> shiftFor n = 3)"
proof (cases "n < 9007199254740992")
  case True
  then show ?thesis by (simp add: shiftFor_small)
next
  case a: False
  show ?thesis
  proof (cases "n div 2 < 9007199254740992")
    case True
    with a have "shiftFor n = 1" by (simp add: shiftFor_large shiftFor_small)
    with a show ?thesis by simp
  next
    case b: False
    show ?thesis
    proof (cases "n div 2 div 2 < 9007199254740992")
      case True
      with a b have "shiftFor n = 2" by (simp add: shiftFor_large shiftFor_small)
      with a show ?thesis by simp
    next
      case c: False
      have "n div 2 div 2 div 2 < 9007199254740992" using assms by linarith
      with a b c have "shiftFor n = 3" by (simp add: shiftFor_large shiftFor_small)
      with a show ?thesis by simp
    qed
  qed
qed

text \<open>The rounded numerator is a nearest multiple of \<open>2 ^ s\<close>, and the product is exact,
  its floor the floor of the real product, when no bit is lost.\<close>

lemma roundHalfEven_nearest:
  "2 * (roundHalfEven n s * 2 ^ s) \<le> 2 * n + 2 ^ s
   \<and> 2 * n \<le> 2 * (roundHalfEven n s * 2 ^ s) + 2 ^ s"
proof -
  define P :: nat where "P = 2 ^ s"
  define q where "q = n div P"
  define r where "r = n mod P"
  define x where "x = q * P"
  have e: "n = x + r" unfolding x_def q_def r_def by (rule div_mult_mod_eq [symmetric])
  have rl: "r < P" by (simp add: r_def P_def)
  have rd: "roundHalfEven n s = (if P < 2 * r \<or> (2 * r = P \<and> odd q) then Suc q else q)"
    by (simp add: roundHalfEven_def q_def r_def P_def Let_def)
  show ?thesis
  proof (cases "P < 2 * r \<or> (2 * r = P \<and> odd q)")
    case True
    then have "roundHalfEven n s = Suc q" unfolding rd by (rule if_P)
    then have "roundHalfEven n s * P = x + P" by (simp add: x_def)
    with True e rl show ?thesis unfolding P_def [symmetric] by linarith
  next
    case False
    then have "roundHalfEven n s = q" unfolding rd by (rule if_not_P)
    then have "roundHalfEven n s * P = x" by (simp add: x_def)
    with False e rl show ?thesis unfolding P_def [symmetric] by linarith
  qed
qed

lemma multiply_exact:
  assumes "mant d * len < 9007199254740992"
  shows "real (fst (multiply d len)) / 2 ^ snd (multiply d len) = valueOf d * real len"
    and "int (Math_floor (multiply d len)) = \<lfloor>valueOf d * real len\<rfloor>"
proof -
  have m: "multiply d len = (mant d * len, scale d)"
    using assms by (simp add: multiply_def shiftFor_small roundHalfEven_def Let_def)
  show "real (fst (multiply d len)) / 2 ^ snd (multiply d len) = valueOf d * real len"
    by (simp add: m valueOf_def)
  have "\<lfloor>real (mant d * len) / real (2 ^ scale d)\<rfloor> = int (mant d * len div 2 ^ scale d)"
    by (rule floor_divide_of_nat_eq)
  then show "int (Math_floor (multiply d len)) = \<lfloor>valueOf d * real len\<rfloor>"
    by (simp add: m valueOf_def Math_floor_def)
qed

text \<open>Rounding does not reach the next multiple of 7 from 7 below it.\<close>

lemma round_below:
  assumes s: "s = 0 \<or> s = 1 \<or> s = 2 \<or> s = 3"
    and n: "n + 7 \<le> 7 * (2 ^ s * j)"
  shows "roundHalfEven n s * 2 ^ s < 7 * (2 ^ s * j)"
proof -
  define q where "q = n div 2 ^ s"
  define r where "r = n mod 2 ^ s"
  have e: "n = q * 2 ^ s + r" unfolding q_def r_def by (rule div_mult_mod_eq [symmetric])
  have rl: "r < 2 ^ s" by (simp add: r_def)
  have rd: "roundHalfEven n s = (if 2 ^ s < 2 * r \<or> (2 * r = 2 ^ s \<and> odd q) then Suc q else q)"
    by (simp add: roundHalfEven_def q_def r_def Let_def)
  from s show ?thesis
  proof (elim disjE)
    assume "s = 0" with e rl n rd show ?thesis by simp
  next
    assume "s = 1" with e rl n rd show ?thesis by (simp split: if_splits)
  next
    assume "s = 2" with e rl n rd show ?thesis by (simp split: if_splits)
  next
    assume "s = 3" with e rl n rd show ?thesis by (simp split: if_splits)
  qed
qed

lemma random_index_less:
  assumes "isRandomDouble d"
  shows "Math_floor (multiply d 7) < 7"
proof -
  let ?m = "mant d" and ?k = "scale d"
  let ?n = "?m * 7"
  from assms have m53: "?m < 9007199254740992" and mk: "?m < 2 ^ ?k"
    by (simp_all add: isRandomDouble_def)
  from m53 have n56: "?n < 72057594037927936" by simp
  let ?s = "shiftFor ?n"
  from shiftFor_cases [OF n56] have s03: "?s = 0 \<or> ?s = 1 \<or> ?s = 2 \<or> ?s = 3" by blast
  have sk: "?s \<le> ?k"
  proof (cases "?s = 0")
    case True then show ?thesis by simp
  next
    case False
    with shiftFor_cases [OF n56] have "9007199254740992 \<le> ?n" by auto
    then have "(2::nat) ^ 3 \<le> ?m" by simp
    with mk have "(2::nat) ^ 3 < 2 ^ ?k" by linarith
    then have "3 < ?k" by (simp only: power_strict_increasing_iff)
    with s03 show ?thesis by auto
  qed
  then have pk: "(2::nat) ^ ?k = 2 ^ ?s * 2 ^ (?k - ?s)"
    by (simp add: power_add [symmetric])
  from mk have "?n + 7 \<le> 7 * 2 ^ ?k" by simp
  then have "?n + 7 \<le> 7 * (2 ^ ?s * 2 ^ (?k - ?s))" by (simp only: pk)
  from round_below [OF s03 this]
  have "roundHalfEven ?n ?s * 2 ^ ?s < 7 * 2 ^ ?k" by (simp only: pk)
  then have "roundHalfEven ?n ?s * 2 ^ ?s div 2 ^ ?k < 7"
    by (simp add: less_mult_imp_div_less)
  then show ?thesis by (simp add: Math_floor_def multiply_def Let_def)
qed

lemma pickResponse_in_list:
  assumes "isRandomDouble d"
  shows "pickResponse d \<in> set responses"
proof -
  let ?i = "Math_floor (multiply d 7)"
  from random_index_less [OF assms] have n: "?i < length responses"
    by (simp only: length_responses)
  then have m: "responses ! ?i \<in> set responses" by (rule nth_mem)
  have "pickResponse d = responses ! ?i"
    using n by (simp add: pickResponse_def length_responses Let_def)
  with m show ?thesis by simp
qed

lemma checkAPIConnection_failed:
  "isl (snd (healthCheck net)) \<Longrightarrow>
     fst (checkAPIConnection net s) = s\<lparr>FloatingChatbot.isConnected := False\<rparr>"
  by (auto simp: checkAPIConnection_def split: prod.splits sum.splits)

lemma apology_not_canned:
  "apology \<notin> set responses" "apology \<notin> set (map ((@) ''[OFFLINE MODE] '') responses)"
  by (simp_all add: apology_def responses_def)

subsection \<open>Timers\<close>

lemma checkConnection_request: "snd (checkConnection net now s) = requestOf ''/health'' noOptions"
  by (simp add: checkConnection_def healthCheck_def makeRequest_def Let_def
      split: FetchResult.splits option.splits sum.splits prod.splits)

lemma callCheckConnection_simps:
  "clock (callCheckConnection world p) = clock p"
  "intervals (callCheckConnection world p) = intervals p"
  "nextHandle (callCheckConnection world p) = nextHandle p"
  "healthChecks (callCheckConnection world p) =
     healthChecks p @ [(clock p, requestOf ''/health'' noOptions)]"
  using checkConnection_request [of "netAt world (clock p)" "localeTimeAt world (clock p)" "indicator p"]
  by (simp_all add: callCheckConnection_def split_beta Let_def)

lemma tick_single:
  assumes "intervals q = [\<lparr>handle = h, delay = D, due = t\<rparr>]"
  shows "clock (tick world q) = Suc (clock q)"
    and "nextHandle (tick world q) = nextHandle q"
    and "t \<le> Suc (clock q) \<Longrightarrow>
           intervals (tick world q) = [\<lparr>handle = h, delay = D, due = Suc (clock q) + D\<rparr>]
           \<and> healthChecks (tick world q) =
               healthChecks q @ [(Suc (clock q), requestOf ''/health'' noOptions)]"
    and "\<not> t \<le> Suc (clock q) \<Longrightarrow>
           intervals (tick world q) = intervals q \<and> healthChecks (tick world q) = healthChecks q"
  using assms by (simp_all add: tick_def Let_def callCheckConnection_simps)

lemma tick_idle:
  assumes "intervals q = []"
  shows "intervals (tick world q) = []" and "healthChecks (tick world q) = healthChecks q"
  using assms by (simp_all add: tick_def Let_def)

lemma advance_idle:
  "intervals q = [] \<Longrightarrow>
     intervals (advance world n q) = [] \<and> healthChecks (advance world n q) = healthChecks q"
  by (induction n) (simp_all add: tick_idle)

lemma mount_simps:
  "fst (mount world p) = nextHandle p"
  "clock (snd (mount world p)) = clock p"
  "intervals (snd (mount world p)) =
     intervals p @ [\<lparr>handle = nextHandle p, delay = 30000, due = clock p + 30000\<rparr>]"
  "healthChecks (snd (mount world p)) = healthChecks p @ [(clock p, requestOf ''/health'' noOptions)]"
  by (simp_all add: mount_def setInterval_def callCheckConnection_simps)

lemma div_step_fire:
  fixes P d :: nat
  assumes "0 < P" "Suc d mod P = 0"
  shows "Suc d div P = Suc (d div P)" and "P * Suc (d div P) = Suc d"
proof -
  show a: "Suc d div P = Suc (d div P)" using assms by (simp add: div_Suc)
  have "P * (Suc d div P) + Suc d mod P = Suc d" by (rule mult_div_mod_eq)
  then show "P * Suc (d div P) = Suc d" using assms(2) a by simp
qed

lemma div_step_idle:
  fixes P d :: nat
  assumes "0 < P" "Suc d mod P \<noteq> 0"
  shows "Suc d div P = d div P" and "Suc d < P * Suc (d div P)"
proof -
  show a: "Suc d div P = d div P" using assms by (simp add: div_Suc)
  have "Suc d < P + (Suc d div P) * P" using assms(1) by (rule dividend_less_div_times)
  then show "Suc d < P * Suc (d div P)" unfolding a by (simp add: mult.commute)
qed

lemma advance_single:
  assumes P: "0 < P"
    and q0: "intervals q0 = [\<lparr>handle = h, delay = P, due = clock q0 + P\<rparr>]"
  shows "clock (advance world d q0) = clock q0 + d
    \<and> intervals (advance world d q0) = [\<lparr>handle = h, delay = P, due = clock q0 + P * Suc (d div P)\<rparr>]
    \<and> healthChecks (advance world d q0) =
        healthChecks q0 @
        map (\<lambda>k. (clock q0 + P * k, requestOf ''/health'' noOptions)) [1..<Suc (d div P)]"
proof (induction d)
  case 0
  show ?case using q0 by simp
next
  case (Suc d)
  let ?q = "advance world d q0"
  from Suc.IH have c: "clock ?q = clock q0 + d"
    and i: "intervals ?q = [\<lparr>handle = h, delay = P, due = clock q0 + P * Suc (d div P)\<rparr>]"
    and hc: "healthChecks ?q = healthChecks q0 @
        map (\<lambda>k. (clock q0 + P * k, requestOf ''/health'' noOptions)) [1..<Suc (d div P)]"
    by blast+
  have t: "advance world (Suc d) q0 = tick world ?q" by simp
  show ?case
  proof (cases "Suc d mod P = 0")
    case True
    note dv = div_step_fire [OF P True]
    have le: "clock q0 + P * Suc (d div P) \<le> Suc (clock ?q)"
      unfolding dv(2) c by simp
    note f = tick_single(3) [OF i le, of world]
    have c': "clock (tick world ?q) = clock q0 + Suc d"
      using tick_single(1) [OF i, of world] c by simp
    have due': "Suc (clock ?q) + P = clock q0 + P * Suc (Suc d div P)"
      unfolding dv(1) c using dv(2) by simp
    have at: "Suc (clock ?q) = clock q0 + P * Suc (d div P)"
      unfolding dv(2) c by simp
    have i': "intervals (tick world ?q) =
        [\<lparr>handle = h, delay = P, due = clock q0 + P * Suc (Suc d div P)\<rparr>]"
      using f due' by simp
    have "[1..<Suc (Suc d div P)] = [1..<Suc (d div P)] @ [Suc (d div P)]"
      unfolding dv(1) by simp
    then have h': "healthChecks (tick world ?q) = healthChecks q0 @
        map (\<lambda>k. (clock q0 + P * k, requestOf ''/health'' noOptions)) [1..<Suc (Suc d div P)]"
      using f hc at by simp
    from c' i' h' show ?thesis unfolding t by blast
  next
    case False
    note dv = div_step_idle [OF P False]
    have nle: "\<not> clock q0 + P * Suc (d div P) \<le> Suc (clock ?q)"
      unfolding c using dv(2) by simp
    note f = tick_single(4) [OF i nle, of world]
    have c': "clock (tick world ?q) = clock q0 + Suc d"
      using tick_single(1) [OF i, of world] c by simp
    have i': "intervals (tick world ?q) =
        [\<lparr>handle = h, delay = P, due = clock q0 + P * Suc (Suc d div P)\<rparr>]"
      using f i unfolding dv(1) by simp
    have h': "healthChecks (tick world ?q) = healthChecks q0 @
        map (\<lambda>k. (clock q0 + P * k, requestOf ''/health'' noOptions)) [1..<Suc (Suc d div P)]"
      using f hc unfolding dv(1) by simp
    from c' i' h' show ?thesis unfolding t by blast
  qed
qed

lemma advance_mounted:
  assumes "intervals p = []"
  shows "intervals (advance world d (snd (mount world p))) =
        [\<lparr>handle = nextHandle p, delay = 30000, due = clock p + 30000 * Suc (d div 30000)\<rparr>]"
    and "healthChecks (advance world d (snd (mount world p))) =
        healthChecks p @
        map (\<lambda>k. (clock p + 30000 * k, requestOf ''/health'' noOptions)) [0..<Suc (d div 30000)]"
proof -
  let ?q0 = "snd (mount world p)"
  have q0: "intervals ?q0 = [\<lparr>handle = nextHandle p, delay = 30000, due = clock ?q0 + 30000\<rparr>]"
    using assms by (simp add: mount_simps)
  have P: "(0::nat) < 30000" by simp
  note a = advance_single [OF P q0, of world d]
  from a show "intervals (advance world d ?q0) =
        [\<lparr>handle = nextHandle p, delay = 30000, due = clock p + 30000 * Suc (d div 30000)\<rparr>]"
    by (simp only: mount_simps)
  have u: "[0..<Suc (d div 30000)] = 0 # [1..<Suc (d div 30000)]"
    by (simp add: upt_rec)
  from a have "healthChecks (advance world d ?q0) = healthChecks ?q0 @
        map (\<lambda>k. (clock p + 30000 * k, requestOf ''/health'' noOptions)) [1..<Suc (d div 30000)]"
    by (simp only: mount_simps)
  then show "healthChecks (advance world d ?q0) = healthChecks p @
        map (\<lambda>k. (clock p + 30000 * k, requestOf ''/health'' noOptions)) [0..<Suc (d div 30000)]"
    unfolding u by (simp add: mount_simps)
qed

section \<open>The claims\<close>

subsection \<open>C1: the session identifier\<close>

text \<open>
  C1. The session identifier is the one thing the client keeps in local storage. For a
  page that has loaded (the constructor has run on whatever storage the last visit left)
  and any sequence of later events \<open>es\<close>, page reloads among them:
  the identifier of the client is the string stored under \<^verbatim>\<open>'cemenos_session_id'\<close>;
  no other key of the storage has changed;
  a chat request sent without a custom session id carries exactly the stored identifier;
  if no event of \<open>es\<close> is \<open>resetSession\<close>, client and storage are what the first load left;
  when no identifier (or an empty one) was stored, the first load generated one from the
  runtime's random string: \<^verbatim>\<open>'cemenos_'\<close> followed by the characters 2 to 14 of
  \<^verbatim>\<open>Math.random().toString(36)\<close>, and stored it; otherwise it took the stored one;
  a reload finds the same identifier again;
  \<open>resetSession\<close> sets an identifier generated in the same way from a new random string and
  writes it under the same key, so that the identifier changes unless the new random
  characters are those of the old identifier, and two resets whose random characters
  differ give different identifiers.
\<close>

theorem session_id_durable:
  assumes "run net es (constructor random0 storage0) = (w, sent)"
  shows "snd w ''cemenos_session_id'' = Some (sessionId (fst w))
    \<and> (\<forall>k. k \<noteq> ''cemenos_session_id'' \<longrightarrow> snd w k = storage0 k)
    \<and> (\<forall>text. body (init (fst (sendMessage net (fst w) text None))) =
          Some (JObject [(''message'', JString text),
                         (''session_id'', JString (the (snd w ''cemenos_session_id'')))]))
    \<and> ((\<forall>e\<in>set es. \<not> isReset e) \<longrightarrow> w = constructor random0 storage0)
    \<and> (\<not> truthy (case storage0 ''cemenos_session_id'' of None \<Rightarrow> [] | Some stored \<Rightarrow> stored) \<longrightarrow>
          constructor random0 storage0 =
            (\<lparr>sessionId = ''cemenos_'' @ take 13 (drop 2 random0)\<rparr>,
             storage0(''cemenos_session_id'' \<mapsto> ''cemenos_'' @ take 13 (drop 2 random0))))
    \<and> (\<forall>stored. storage0 ''cemenos_session_id'' = Some stored \<and> stored \<noteq> [] \<longrightarrow>
          constructor random0 storage0 = (\<lparr>sessionId = stored\<rparr>, storage0))
    \<and> (\<forall>random1. constructor random1 (snd w) = w)
    \<and> (\<forall>random1. resetSession random1 w =
          (\<lparr>sessionId = ''cemenos_'' @ take 13 (drop 2 random1)\<rparr>,
           (snd w)(''cemenos_session_id'' \<mapsto> ''cemenos_'' @ take 13 (drop 2 random1))))
    \<and> (\<forall>random1. sessionId (fst w) \<noteq> ''cemenos_'' @ take 13 (drop 2 random1) \<longrightarrow>
          sessionId (fst (resetSession random1 w)) \<noteq> sessionId (fst w))
    \<and> (\<forall>random1 random2. take 13 (drop 2 random1) \<noteq> take 13 (drop 2 random2) \<longrightarrow>
          sessionId (fst (resetSession random1 w)) \<noteq> sessionId (fst (resetSession random2 w)))"
proof -
  let ?w0 = "constructor random0 storage0"
  have fresh: "\<And>r. freshSessionId r = ''cemenos_'' @ take 13 (drop 2 r)"
    by (simp add: freshSessionId_def substring_def)
  have w: "w = fst (run net es ?w0)" using assms by simp
  have inv: "stored_inv w" unfolding w by (rule run_inv [OF constructor_inv])
  have c1: "snd w ''cemenos_session_id'' = Some (sessionId (fst w))"
    using inv by (simp add: stored_inv_def)
  have c2: "\<forall>k. k \<noteq> ''cemenos_session_id'' \<longrightarrow> snd w k = storage0 k"
    unfolding w by (simp add: run_frame constructor_frame)
  have c3: "\<forall>text. body (init (fst (sendMessage net (fst w) text None))) =
          Some (JObject [(''message'', JString text),
                         (''session_id'', JString (the (snd w ''cemenos_session_id'')))])"
    by (simp add: sendMessage_session_id c1)
  have c4: "(\<forall>e\<in>set es. \<not> isReset e) \<longrightarrow> w = ?w0"
    unfolding w by (simp add: run_same [OF constructor_inv])
  have c5: "\<not> truthy (case storage0 ''cemenos_session_id'' of None \<Rightarrow> [] | Some stored \<Rightarrow> stored) \<longrightarrow>
          ?w0 = (\<lparr>sessionId = ''cemenos_'' @ take 13 (drop 2 random0)\<rparr>,
             storage0(''cemenos_session_id'' \<mapsto> ''cemenos_'' @ take 13 (drop 2 random0)))"
    by (simp add: constructor_def getSessionId_def fresh split: option.splits)
  have c6: "\<forall>stored. storage0 ''cemenos_session_id'' = Some stored \<and> stored \<noteq> [] \<longrightarrow>
          ?w0 = (\<lparr>sessionId = stored\<rparr>, storage0)"
    by (simp add: constructor_def getSessionId_def truthy_def)
  have c7: "\<forall>random1. constructor random1 (snd w) = w"
    using constructor_stored [of "fst w" "snd w"] inv by simp
  have c8: "\<forall>random1. resetSession random1 w =
          (\<lparr>sessionId = ''cemenos_'' @ take 13 (drop 2 random1)\<rparr>,
           (snd w)(''cemenos_session_id'' \<mapsto> ''cemenos_'' @ take 13 (drop 2 random1)))"
    by (cases w) (simp add: resetSession_def fresh)
  have c9: "\<forall>random1. sessionId (fst w) \<noteq> ''cemenos_'' @ take 13 (drop 2 random1) \<longrightarrow>
          sessionId (fst (resetSession random1 w)) \<noteq> sessionId (fst w)"
    using c8 by auto
  have c10: "\<forall>random1 random2. take 13 (drop 2 random1) \<noteq> take 13 (drop 2 random2) \<longrightarrow>
          sessionId (fst (resetSession random1 w)) \<noteq> sessionId (fst (resetSession random2 w))"
    using c8 by simp
  from c1 c2 c3 c4 c5 c6 c7 c8 c9 c10 show ?thesis by blast
qed

text \<open>A first visit with an empty storage, a chat message, a reload and a health check:
  the identifier generated at the first load is still the client's and the stored one. A
  reset then replaces it by one made from the new random string.\<close>

theorem session_id_durable_witness:
  "fst (run unreachable [SendMessage ''hi'' None, PageLoad ''0.zzzzzzzz'', HealthCheck]
         (constructor ''0.4fzyo82mvyr'' Map.empty))
     = constructor ''0.4fzyo82mvyr'' Map.empty
   \<and> constructor ''0.4fzyo82mvyr'' Map.empty =
       (\<lparr>sessionId = ''cemenos_4fzyo82mvyr''\<rparr>,
        [''cemenos_session_id'' \<mapsto> ''cemenos_4fzyo82mvyr''])
   \<and> resetSession ''0.9x8k2m1qwe7''
        (fst (run unreachable [SendMessage ''hi'' None, PageLoad ''0.zzzzzzzz'', HealthCheck]
               (constructor ''0.4fzyo82mvyr'' Map.empty))) =
       (\<lparr>sessionId = ''cemenos_9x8k2m1qwe7''\<rparr>,
        [''cemenos_session_id'' \<mapsto> ''cemenos_9x8k2m1qwe7''])"
proof -
  let ?es = "[SendMessage ''hi'' None, PageLoad ''0.zzzzzzzz'', HealthCheck]"
  let ?w0 = "constructor ''0.4fzyo82mvyr'' Map.empty"
  let ?r = "run unreachable ?es ?w0"
  have "?r = (fst ?r, snd ?r)" by simp
  note th = session_id_durable [OF this]
  have noreset: "\<forall>e\<in>set ?es. \<not> isReset e" by simp
  from th noreset have a: "fst ?r = ?w0" by blast
  have "\<not> truthy (case (Map.empty :: Storage) ''cemenos_session_id'' of
                    None \<Rightarrow> [] | Some stored \<Rightarrow> stored)"
    by (simp add: truthy_def)
  with th have "?w0 = (\<lparr>sessionId = ''cemenos_'' @ take 13 (drop 2 ''0.4fzyo82mvyr'')\<rparr>,
      [''cemenos_session_id'' \<mapsto> ''cemenos_'' @ take 13 (drop 2 ''0.4fzyo82mvyr'')])" by blast
  then have b: "?w0 = (\<lparr>sessionId = ''cemenos_4fzyo82mvyr''\<rparr>,
        [''cemenos_session_id'' \<mapsto> ''cemenos_4fzyo82mvyr''])"
    by simp
  from a b have ab: "fst ?r = (\<lparr>sessionId = ''cemenos_4fzyo82mvyr''\<rparr>,
        [''cemenos_session_id'' \<mapsto> ''cemenos_4fzyo82mvyr''])"
    by (rule trans)
  from th have "resetSession ''0.9x8k2m1qwe7'' (fst ?r) =
      (\<lparr>sessionId = ''cemenos_'' @ take 13 (drop 2 ''0.9x8k2m1qwe7'')\<rparr>,
       (snd (fst ?r))(''cemenos_session_id'' \<mapsto> ''cemenos_'' @ take 13 (drop 2 ''0.9x8k2m1qwe7'')))"
    by blast
  then have c: "resetSession ''0.9x8k2m1qwe7'' (fst ?r) =
       (\<lparr>sessionId = ''cemenos_9x8k2m1qwe7''\<rparr>,
        [''cemenos_session_id'' \<mapsto> ''cemenos_9x8k2m1qwe7''])"
    unfolding ab by simp
  show ?thesis by (rule conjI [OF a conjI [OF b c]])
qed

subsection \<open>C2: offline mode\<close>

text \<open>
  C2. If the health check fails, \<open>checkAPIConnection\<close> leaves the widget with
  \<open>isConnected = False\<close>. A send made while the flag is false (\<open>handleSend\<close> with an input
  that is not blank, and no send in progress) appends the user's message and then a bot
  message whose text is \<^verbatim>\<open>'[OFFLINE MODE] '\<close> followed by one of the seven strings of
  \<open>responses\<close>, and it makes no request. \<^verbatim>\<open>Math.random()\<close> is any double from 0 up to, not
  including, 1; the string is the one at the index \<^verbatim>\<open>Math.floor(Math.random() * 7)\<close>, the
  product being the rounded product of doubles, and that index is below 7.
\<close>

theorem offline_fallback:
  "(isl (snd (healthCheck net)) \<longrightarrow>
      \<not> FloatingChatbot.isConnected (fst (checkAPIConnection net s')))
   \<and> (\<not> FloatingChatbot.isConnected s \<and> (\<exists>c\<in>set (FloatingChatbot.message s). \<not> isWhiteSpace c)
        \<and> \<not> isLoading s \<and> isRandomDouble (Math_random rt) \<longrightarrow>
      (\<exists>canned\<in>set responses.
         chatHistory (fst (handleSend rt api s)) =
           chatHistory s @
           [\<lparr>type = User, ChatMessage.message = FloatingChatbot.message s,
             ChatMessage.timestamp = timeAtSend rt, processingTime = None, isError = None\<rparr>,
            \<lparr>type = Bot, ChatMessage.message = ''[OFFLINE MODE] '' @ canned,
             ChatMessage.timestamp = timeAtReply rt, processingTime = None, isError = None\<rparr>])
      \<and> Math_floor (multiply (Math_random rt) 7) < 7
      \<and> ChatMessage.message (last (chatHistory (fst (handleSend rt api s)))) =
          ''[OFFLINE MODE] '' @ responses ! Math_floor (multiply (Math_random rt) 7)
      \<and> requests (snd (handleSend rt api s)) = []
      \<and> toasts (snd (handleSend rt api s)) = [])"
proof (intro conjI impI)
  assume "isl (snd (healthCheck net))"
  then show "\<not> FloatingChatbot.isConnected (fst (checkAPIConnection net s'))"
    by (simp add: checkAPIConnection_failed)
next
  assume a: "\<not> FloatingChatbot.isConnected s \<and> (\<exists>c\<in>set (FloatingChatbot.message s). \<not> isWhiteSpace c)
        \<and> \<not> isLoading s \<and> isRandomDouble (Math_random rt)"
  then have g: "truthy (trim (FloatingChatbot.message s))"
    using trim_nonblank [of "FloatingChatbot.message s"] by (simp add: truthy_def)
  from a have p: "pickResponse (Math_random rt) \<in> set responses"
    by (simp add: pickResponse_in_list)
  have h: "handleSend rt api s =
      (s\<lparr>chatHistory := chatHistory s @
           [\<lparr>type = User, ChatMessage.message = FloatingChatbot.message s,
             ChatMessage.timestamp = timeAtSend rt, processingTime = None, isError = None\<rparr>,
            \<lparr>type = Bot, ChatMessage.message = ''[OFFLINE MODE] '' @ pickResponse (Math_random rt),
             ChatMessage.timestamp = timeAtReply rt, processingTime = None, isError = None\<rparr>],
         isLoading := False, message := []\<rparr>, noEffects)"
    using a g by (simp add: handleSend_def Let_def)
  show "\<exists>canned\<in>set responses.
         chatHistory (fst (handleSend rt api s)) =
           chatHistory s @
           [\<lparr>type = User, ChatMessage.message = FloatingChatbot.message s,
             ChatMessage.timestamp = timeAtSend rt, processingTime = None, isError = None\<rparr>,
            \<lparr>type = Bot, ChatMessage.message = ''[OFFLINE MODE] '' @ canned,
             ChatMessage.timestamp = timeAtReply rt, processingTime = None, isError = None\<rparr>]"
    using p unfolding h by (intro bexI [of _ "pickResponse (Math_random rt)"]) simp_all
  from a show i: "Math_floor (multiply (Math_random rt) 7) < 7"
    by (simp add: random_index_less)
  then have "pickResponse (Math_random rt) = responses ! Math_floor (multiply (Math_random rt) 7)"
    by (simp add: pickResponse_def length_responses Let_def)
  then show "ChatMessage.message (last (chatHistory (fst (handleSend rt api s)))) =
          ''[OFFLINE MODE] '' @ responses ! Math_floor (multiply (Math_random rt) 7)"
    unfolding h by simp
  show "requests (snd (handleSend rt api s)) = []" unfolding h by (simp add: noEffects_def)
  show "toasts (snd (handleSend rt api s)) = []" unfolding h by (simp add: noEffects_def)
qed

text \<open>The network is down when the widget mounts; the user then types a question and
  sends it. \<^verbatim>\<open>Math.random()\<close> is 0.5714285714285714: the product with 7 rounds to 4, and the
  reply is the fifth canned response.\<close>

theorem offline_fallback_witness:
  "\<not> FloatingChatbot.isConnected
       (fst (checkAPIConnection (unreachable :: Request \<Rightarrow> json FetchResult)
              (initialChatbot ''10:14:00 AM'')))
   \<and> requests (snd (handleSend (runtimeWith unreachable fourSevenths)
        \<lparr>sessionId = ''cemenos_4fzyo82mvyr''\<rparr>
        ((fst (checkAPIConnection (unreachable :: Request \<Rightarrow> json FetchResult)
                (initialChatbot ''10:14:00 AM'')))\<lparr>message := ''kiln status''\<rparr>))) = []
   \<and> ChatMessage.message (last (chatHistory (fst
        (handleSend (runtimeWith unreachable fourSevenths) \<lparr>sessionId = ''cemenos_4fzyo82mvyr''\<rparr>
          ((fst (checkAPIConnection (unreachable :: Request \<Rightarrow> json FetchResult)
                  (initialChatbot ''10:14:00 AM'')))\<lparr>message := ''kiln status''\<rparr>)))))
       = ''[OFFLINE MODE] I can run a full plant optimization if you'd like. This typically improves efficiency by 3-5%.''"
proof -
  let ?net = "unreachable :: Request \<Rightarrow> json FetchResult"
  let ?mounted = "initialChatbot ''10:14:00 AM''"
  let ?s = "(fst (checkAPIConnection ?net ?mounted))\<lparr>message := ''kiln status''\<rparr>"
  let ?rt = "runtimeWith unreachable fourSevenths"
  let ?api = "\<lparr>sessionId = ''cemenos_4fzyo82mvyr''\<rparr>"
  note th = offline_fallback [where net = ?net and s' = ?mounted and s = ?s and rt = ?rt and api = ?api]
  have failed: "isl (snd (healthCheck ?net))"
    by (simp add: healthCheck_def makeRequest_def unreachable_def)
  from th failed have a: "\<not> FloatingChatbot.isConnected (fst (checkAPIConnection ?net ?mounted))"
    by blast
  have pre: "\<not> FloatingChatbot.isConnected ?s \<and> (\<exists>c\<in>set (FloatingChatbot.message ?s). \<not> isWhiteSpace c)
        \<and> \<not> isLoading ?s \<and> isRandomDouble (Math_random ?rt)"
    using a by (simp add: initialChatbot_def checkAPIConnection_def healthCheck_def makeRequest_def
        unreachable_def runtimeWith_def isWhiteSpace_def isRandomDouble_def fourSevenths_def)
  from th pre have b: "requests (snd (handleSend ?rt ?api ?s)) = []" by blast
  have i: "Math_floor (multiply fourSevenths 7) = 4"
    by (simp add: Math_floor_def multiply_def roundHalfEven_def shiftFor_small shiftFor_large
        fourSevenths_def Let_def)
  have p: "pickResponse fourSevenths =
      ''I can run a full plant optimization if you'd like. This typically improves efficiency by 3-5%.''"
    by (simp add: pickResponse_def length_responses i Let_def) (simp add: responses_def)
  have c: "ChatMessage.message (last (chatHistory (fst (handleSend ?rt ?api ?s))))
       = ''[OFFLINE MODE] I can run a full plant optimization if you'd like. This typically improves efficiency by 3-5%.''"
    by (simp add: handleSend_def initialChatbot_def checkAPIConnection_def healthCheck_def
        makeRequest_def unreachable_def runtimeWith_def isWhiteSpace_def trim_def truthy_def
        p Let_def)
  show ?thesis by (rule conjI [OF a conjI [OF b c]])
qed

subsection \<open>C3: a chat send that fails\<close>

text \<open>
  C3, as the code has it. A chat send made while the widget is connected fails when the
  fetch is rejected (a network exception), when the response is not 2xx, when its body is
  not JSON, or when the body has \<open>success = false\<close>. In each of these cases the widget
  appends the user's message and then one fixed apology, flagged \<open>isError\<close>, and raises
  the "Chat Error" toast. The apology is not one of the canned \<open>responses\<close>, with or
  without the \<^verbatim>\<open>'[OFFLINE MODE] '\<close> prefix: those are used in offline mode only.
\<close>

theorem chat_failure_apology:
  assumes guard: "\<exists>c\<in>set (FloatingChatbot.message s). \<not> isWhiteSpace c" "\<not> isLoading s"
    and conn: "FloatingChatbot.isConnected s"
    and fail: "fetch rt (fst (sendMessage (fetch rt) api (FloatingChatbot.message s) None)) = Rejected
       \<or> (\<exists>status parsed.
            fetch rt (fst (sendMessage (fetch rt) api (FloatingChatbot.message s) None))
              = Response status parsed
            \<and> (\<not> ok status \<or> parsed = None \<or> (\<exists>r. parsed = Some r \<and> \<not> success r)))"
  shows "chatHistory (fst (handleSend rt api s)) =
           chatHistory s @
           [\<lparr>type = User, ChatMessage.message = FloatingChatbot.message s,
             ChatMessage.timestamp = timeAtSend rt, processingTime = None, isError = None\<rparr>,
            \<lparr>type = Bot, ChatMessage.message = apology, ChatMessage.timestamp = timeAtReply rt,
             processingTime = None, isError = Some True\<rparr>]
    \<and> toasts (snd (handleSend rt api s)) =
         [\<lparr>title = ''Chat Error'', Toast.description = ''Failed to get response from AI assistant'',
           variant = Some ''destructive''\<rparr>]
    \<and> requests (snd (handleSend rt api s)) =
         [fst (sendMessage (fetch rt) api (FloatingChatbot.message s) None)]
    \<and> apology \<notin> set responses
    \<and> apology \<notin> set (map ((@) ''[OFFLINE MODE] '') responses)"
proof -
  have g: "truthy (trim (FloatingChatbot.message s))"
    using trim_nonblank [OF guard(1)] by (simp add: truthy_def)
  let ?r = "sendMessage (fetch rt) api (FloatingChatbot.message s) None"
  have req: "fst ?r = requestOf ''/chat''
       \<lparr>method' = Some ''POST'', headers = None,
        body = Some (JObject [(''message'', JString (FloatingChatbot.message s)),
                              (''session_id'', JString (orElse None (sessionId api)))])\<rparr>"
    by (simp add: sendMessage_def makeRequest_def)
  from fail have bad: "isl (snd ?r) \<or> (\<exists>r. snd ?r = Inr r \<and> \<not> success r)"
    unfolding req by (auto simp: sendMessage_def makeRequest_def)
  then have e: "handleSend rt api s =
      chatError rt [fst ?r]
        (s\<lparr>chatHistory := chatHistory s @
             [\<lparr>type = User, ChatMessage.message = FloatingChatbot.message s,
               ChatMessage.timestamp = timeAtSend rt, processingTime = None, isError = None\<rparr>],
           isLoading := True, message := []\<rparr>)"
    using g guard(2) conn
    by (cases "snd ?r") (auto simp: handleSend_def Let_def split: prod.splits)
  have c1: "chatHistory (fst (handleSend rt api s)) =
           chatHistory s @
           [\<lparr>type = User, ChatMessage.message = FloatingChatbot.message s,
             ChatMessage.timestamp = timeAtSend rt, processingTime = None, isError = None\<rparr>,
            \<lparr>type = Bot, ChatMessage.message = apology, ChatMessage.timestamp = timeAtReply rt,
             processingTime = None, isError = Some True\<rparr>]"
    unfolding e by (simp add: chatError_def)
  have c2: "toasts (snd (handleSend rt api s)) =
         [\<lparr>title = ''Chat Error'', Toast.description = ''Failed to get response from AI assistant'',
           variant = Some ''destructive''\<rparr>]"
    unfolding e by (simp add: chatError_def)
  have c3: "requests (snd (handleSend rt api s)) = [fst ?r]"
    unfolding e by (simp add: chatError_def)
  from c1 c2 c3 apology_not_canned show ?thesis by blast
qed

text \<open>The server answers the chat request with status 500.\<close>

theorem chat_failure_apology_witness:
  "chatHistory (fst (handleSend (runtimeWith (respond 500 None) half)
       \<lparr>sessionId = ''cemenos_4fzyo82mvyr''\<rparr>
       ((initialChatbot ''10:14:00 AM'')
          \<lparr>message := ''kiln status'', FloatingChatbot.isConnected := True\<rparr>))) =
     chatHistory (initialChatbot ''10:14:00 AM'') @
     [\<lparr>type = User, ChatMessage.message = ''kiln status'',
       ChatMessage.timestamp = ''10:15:00 AM'', processingTime = None, isError = None\<rparr>,
      \<lparr>type = Bot, ChatMessage.message = apology, ChatMessage.timestamp = ''10:15:01 AM'',
       processingTime = None, isError = Some True\<rparr>]"
  using chat_failure_apology [where rt = "runtimeWith (respond 500 None) half"
      and api = "\<lparr>sessionId = ''cemenos_4fzyo82mvyr''\<rparr>"
      and s = "(initialChatbot ''10:14:00 AM'')
          \<lparr>message := ''kiln status'', FloatingChatbot.isConnected := True\<rparr>"]
  by (simp add: initialChatbot_def runtimeWith_def respond_def isWhiteSpace_def ok_def)

text \<open>The claim as it was stated fails when the network is down during a send of a
  connected widget: the bot's reply is none of the canned responses.\<close>

theorem chat_failure_not_canned_counterexample:
  "ChatMessage.message (last (chatHistory (fst (handleSend (runtimeWith unreachable half)
       \<lparr>sessionId = ''cemenos_4fzyo82mvyr''\<rparr>
       ((initialChatbot ''10:14:00 AM'')
          \<lparr>message := ''kiln status'', FloatingChatbot.isConnected := True\<rparr>)))))
     \<notin> set responses
   \<and> ChatMessage.message (last (chatHistory (fst (handleSend (runtimeWith unreachable half)
       \<lparr>sessionId = ''cemenos_4fzyo82mvyr''\<rparr>
       ((initialChatbot ''10:14:00 AM'')
          \<lparr>message := ''kiln status'', FloatingChatbot.isConnected := True\<rparr>)))))
     \<notin> set (map ((@) ''[OFFLINE MODE] '') responses)"
proof -
  have "ChatMessage.message (last (chatHistory (fst (handleSend (runtimeWith unreachable half)
       \<lparr>sessionId = ''cemenos_4fzyo82mvyr''\<rparr>
       ((initialChatbot ''10:14:00 AM'')
          \<lparr>message := ''kiln status'', FloatingChatbot.isConnected := True\<rparr>))))) = apology"
    by (simp add: handleSend_def initialChatbot_def runtimeWith_def unreachable_def
        sendMessage_def makeRequest_def chatError_def isWhiteSpace_def trim_def truthy_def Let_def)
  then show ?thesis by (simp only: apology_not_canned not_False_eq_True simp_thms)
qed

subsection \<open>C4: when makeRequest raises\<close>

text \<open>
  C4, as the code has it. \<open>makeRequest\<close> raises an error exactly when the fetch is
  rejected (a network exception), or the status of the response is not 2xx, or the
  response is 2xx and its body cannot be parsed as JSON; on a 2xx response whose body
  parses it returns the parsed body. The one request it makes goes to the base URL
  followed by the endpoint.
\<close>

theorem makeRequest_error_cases:
  "(isl (snd (makeRequest net endpoint options)) \<longleftrightarrow>
      net (requestOf endpoint options) = Rejected
      \<or> (\<exists>status parsed. net (requestOf endpoint options) = Response status parsed
            \<and> (\<not> ok status \<or> parsed = None)))
   \<and> (\<forall>status data. net (requestOf endpoint options) = Response status (Some data) \<and> ok status
         \<longrightarrow> snd (makeRequest net endpoint options) = Inr data)
   \<and> fst (makeRequest net endpoint options) = requestOf endpoint options"
  by (auto simp: makeRequest_def split: FetchResult.splits option.splits)

text \<open>A health check answered with 200 and a JSON body; one answered with 503.\<close>

theorem makeRequest_error_cases_witness:
  "snd (makeRequest (respond 200 (Some (JObject [(''status'', JString ''healthy'')])))
          ''/health'' noOptions) = Inr (JObject [(''status'', JString ''healthy'')])
   \<and> isl (snd (makeRequest (respond 503 (Some (JObject []))) ''/health'' noOptions))"
  using makeRequest_error_cases [of "respond 200 (Some (JObject [(''status'', JString ''healthy'')]))"
      "''/health''" noOptions]
    makeRequest_error_cases [of "respond 503 (Some (JObject []))" "''/health''" noOptions]
  by (simp add: ok_def respond_def)

text \<open>The claim as it was stated fails on a 2xx response without a JSON body: the session
  is deleted, the server answers 204 with an empty body, and \<open>makeRequest\<close> raises although
  the fetch was not rejected and \<^verbatim>\<open>response.ok\<close> holds.\<close>

theorem makeRequest_iff_counterexample:
  "isl (snd (deleteSession (respond 204 (None :: json option))
              \<lparr>sessionId = ''cemenos_4fzyo82mvyr''\<rparr> None))
   \<and> respond 204 (None :: json option)
         (fst (deleteSession (respond 204 (None :: json option))
                 \<lparr>sessionId = ''cemenos_4fzyo82mvyr''\<rparr> None)) \<noteq> Rejected
   \<and> ok 204"
  by (simp add: deleteSession_def makeRequest_def respond_def ok_def)

subsection \<open>C5: adding a team member\<close>

text \<open>
  C5. If the name, the role or the email of the new member is empty, \<open>handleAddMember\<close>
  raises the destructive "Missing Information" toast and returns the state unchanged, the
  list of team members with it. If all three are non-empty, it appends the new member at
  the end of the list, resets the fields of the form to empty strings, closes the form,
  leaves the rest of the state alone and raises the "Team Member Added" toast.
\<close>

theorem handleAddMember_validation:
  "(TeamMember.name (newMember s) = [] \<or> role (newMember s) = [] \<or> email (newMember s) = [] \<longrightarrow>
      handleAddMember s =
        (s, [\<lparr>title = ''Missing Information'',
              Toast.description = ''Please fill in all required fields (Name, Role, Email).'',
              variant = Some ''destructive''\<rparr>]))
   \<and> (TeamMember.name (newMember s) \<noteq> [] \<and> role (newMember s) \<noteq> [] \<and> email (newMember s) \<noteq> [] \<longrightarrow>
      teamMembers (fst (handleAddMember s)) = teamMembers s @ [newMember s]
      \<and> newMember (fst (handleAddMember s)) =
          \<lparr>TeamMember.name = [], role = [], email = [], phone = [], experience = [],
           department = []\<rparr>
      \<and> isAddingMember (fst (handleAddMember s)) = False
      \<and> ProfileModal.more (fst (handleAddMember s)) = ProfileModal.more s
      \<and> snd (handleAddMember s) =
          [\<lparr>title = ''Team Member Added'',
            Toast.description =
              TeamMember.name (newMember s) @ '' has been successfully added to the management team.'',
            variant = None\<rparr>])"
  by (auto simp: handleAddMember_def truthy_def)

text \<open>A form without an email, and the same form filled in.\<close>

theorem handleAddMember_validation_witness:
  "teamMembers (fst (handleAddMember
      \<lparr>teamMembers = [], isAddingMember = True,
       newMember = \<lparr>TeamMember.name = ''Asha Rao'', role = ''Shift Lead'', email = [],
                    phone = [], experience = [], department = []\<rparr>\<rparr>)) = []
   \<and> teamMembers (fst (handleAddMember
      \<lparr>teamMembers = [], isAddingMember = True,
       newMember = \<lparr>TeamMember.name = ''Asha Rao'', role = ''Shift Lead'',
                    email = ''asha.r@plant.com'', phone = [], experience = [],
                    department = []\<rparr>\<rparr>)) =
       [\<lparr>TeamMember.name = ''Asha Rao'', role = ''Shift Lead'', email = ''asha.r@plant.com'',
         phone = [], experience = [], department = []\<rparr>]"
  using handleAddMember_validation [of
      "\<lparr>teamMembers = [], isAddingMember = True,
        newMember = \<lparr>TeamMember.name = ''Asha Rao'', role = ''Shift Lead'', email = [],
                     phone = [], experience = [], department = []\<rparr>\<rparr>"]
    handleAddMember_validation [of
      "\<lparr>teamMembers = [], isAddingMember = True,
        newMember = \<lparr>TeamMember.name = ''Asha Rao'', role = ''Shift Lead'',
                     email = ''asha.r@plant.com'', phone = [], experience = [],
                     department = []\<rparr>\<rparr>"]
  by simp

subsection \<open>C6: the chat request\<close>

text \<open>
  C6. The request \<open>sendMessage\<close> makes is a POST to the base URL followed by \<^verbatim>\<open>/chat\<close>,
  with the JSON content type, whose body is the object with exactly the two fields
  \<open>message\<close>, the text given, and \<open>session_id\<close>: the custom session id when one is given
  and is not empty, the client's own otherwise.
\<close>

theorem sendMessage_request:
  "fst (sendMessage net api text customSessionId) =
     \<lparr>url = BASE_URL @ ''/chat'',
      init = \<lparr>method' = Some ''POST'',
              headers = Some [(''Content-Type'', ''application/json'')],
              body = Some (JObject
                [(''message'', JString text),
                 (''session_id'', JString (case customSessionId of
                                            None \<Rightarrow> sessionId api
                                          | Some c \<Rightarrow> if c = [] then sessionId api else c))])\<rparr>\<rparr>"
  by (simp add: sendMessage_def makeRequest_def requestOf_def finalOptions_def defaultOptions_def
      spread_def orElse_def truthy_def split: option.splits)

text \<open>A message sent with the client's own session id.\<close>

theorem sendMessage_request_witness:
  "fst (sendMessage (unreachable :: Request \<Rightarrow> json FetchResult)
         \<lparr>sessionId = ''cemenos_4fzyo82mvyr''\<rparr> ''kiln status'' None) =
     \<lparr>url = ''https://cemenos-904719874116.us-central1.run.app/chat'',
      init = \<lparr>method' = Some ''POST'',
              headers = Some [(''Content-Type'', ''application/json'')],
              body = Some (JObject
                [(''message'', JString ''kiln status''),
                 (''session_id'', JString ''cemenos_4fzyo82mvyr'')])\<rparr>\<rparr>"
  using sendMessage_request [of "unreachable :: Request \<Rightarrow> json FetchResult"
      "\<lparr>sessionId = ''cemenos_4fzyo82mvyr''\<rparr>" "''kiln status''" None]
  by (simp add: BASE_URL_def)

subsection \<open>C7: the health check of the status indicator\<close>

text \<open>
  C7. Time is a clock in milliseconds, and an interval timer calls back whenever it is
  due. On a page with no timer yet, the indicator mounts at time \<open>clock p\<close>: it makes one
  health check then and sets one timer with a delay of 30000. When \<open>d\<close> milliseconds have
  passed, the health checks made are that first one and one at every multiple of 30000
  milliseconds after it, up to \<open>d\<close>, each a request to \<^verbatim>\<open>/health\<close>. Unmounting clears the
  timer: no timer is left, and however long the page lives on, no health check follows.
\<close>

theorem health_check_every_30s:
  assumes "intervals p = []"
  shows "healthChecks (advance world d (snd (mount world p))) =
           healthChecks p @
           map (\<lambda>k. (clock p + 30000 * k, requestOf ''/health'' noOptions)) [0..<Suc (d div 30000)]
    \<and> intervals (unmount (fst (mount world p)) (advance world d (snd (mount world p)))) = []
    \<and> healthChecks (advance world d' (unmount (fst (mount world p)) (advance world d (snd (mount world p)))))
        = healthChecks (advance world d (snd (mount world p)))"
proof -
  let ?q = "advance world d (snd (mount world p))"
  let ?u = "unmount (fst (mount world p)) ?q"
  note m = advance_mounted [OF assms, of world d]
  have u: "intervals ?u = []"
    using m(1) by (simp add: unmount_def clearInterval_def mount_simps)
  have hu: "healthChecks ?u = healthChecks ?q"
    by (simp add: unmount_def clearInterval_def)
  from advance_idle [OF u, of world d'] hu m(2) u show ?thesis by simp
qed

text \<open>One minute after mounting at time 0, three health checks have been made; after the
  unmount that follows, an hour later, there are still three.\<close>

theorem health_check_every_30s_witness:
  "map fst (healthChecks (advance offlineWorld 60000 (snd (mount offlineWorld initialPage))))
     = [0, 30000, 60000]
   \<and> map fst (healthChecks (advance offlineWorld 3600000
        (unmount (fst (mount offlineWorld initialPage))
           (advance offlineWorld 60000 (snd (mount offlineWorld initialPage))))))
     = [0, 30000, 60000]"
proof -
  have i: "intervals initialPage = []" by (simp add: initialPage_def)
  note th = health_check_every_30s [OF i, of offlineWorld 60000 3600000]
  have "[0..<Suc (60000 div 30000)] = [0, 1, 2]" by (simp add: upt_rec)
  then have h: "healthChecks (advance offlineWorld 60000 (snd (mount offlineWorld initialPage))) =
      [(0, requestOf ''/health'' noOptions), (30000, requestOf ''/health'' noOptions),
       (60000, requestOf ''/health'' noOptions)]"
    using th by (simp add: initialPage_def)
  from th have "healthChecks (advance offlineWorld 3600000
        (unmount (fst (mount offlineWorld initialPage))
           (advance offlineWorld 60000 (snd (mount offlineWorld initialPage))))) =
      healthChecks (advance offlineWorld 60000 (snd (mount offlineWorld initialPage)))"
    by blast
  with h show ?thesis by simp
qed

subsection \<open>C8: the guard of handleSend\<close>

text \<open>
  C8. If the input is empty or holds white space only, or if a send is in progress
  (\<open>isLoading\<close>), \<open>handleSend\<close> returns at once: the state, and so the chat history, the
  loading flag and the input, is what it was, and no request is made (and no toast
  raised).
\<close>

theorem handleSend_guard:
  assumes "(\<forall>c\<in>set (FloatingChatbot.message s). isWhiteSpace c) \<or> isLoading s"
  shows "handleSend rt api s = (s, \<lparr>requests = [], toasts = []\<rparr>)"
  using assms by (auto simp: handleSend_def noEffects_def truthy_def trim_blank)

text \<open>An input of a space, a tab and a no-break space on a connected widget; and a
  question sent while the last one is still loading.\<close>

theorem handleSend_guard_witness:
  "handleSend (runtimeWith unreachable half) \<lparr>sessionId = ''cemenos_4fzyo82mvyr''\<rparr>
     ((initialChatbot ''10:14:00 AM'')
        \<lparr>message := [CHR '' '', CHR 0x09, CHR 0xA0], FloatingChatbot.isConnected := True\<rparr>)
   = ((initialChatbot ''10:14:00 AM'')
        \<lparr>message := [CHR '' '', CHR 0x09, CHR 0xA0], FloatingChatbot.isConnected := True\<rparr>,
      \<lparr>requests = [], toasts = []\<rparr>)
   \<and> handleSend (runtimeWith unreachable half) \<lparr>sessionId = ''cemenos_4fzyo82mvyr''\<rparr>
     ((initialChatbot ''10:14:00 AM'')\<lparr>message := ''kiln status'', isLoading := True\<rparr>)
   = ((initialChatbot ''10:14:00 AM'')\<lparr>message := ''kiln status'', isLoading := True\<rparr>,
      \<lparr>requests = [], toasts = []\<rparr>)"
  using handleSend_guard [of
      "(initialChatbot ''10:14:00 AM'')
        \<lparr>message := [CHR '' '', CHR 0x09, CHR 0xA0], FloatingChatbot.isConnected := True\<rparr>"
      "runtimeWith unreachable half" "\<lparr>sessionId = ''cemenos_4fzyo82mvyr''\<rparr>"]
    handleSend_guard [of
      "(initialChatbot ''10:14:00 AM'')\<lparr>message := ''kiln status'', isLoading := True\<rparr>"
      "runtimeWith unreachable half" "\<lparr>sessionId = ''cemenos_4fzyo82mvyr''\<rparr>"]
  by (simp add: initialChatbot_def isWhiteSpace_def)

subsection \<open>C9: the scenario filter\<close>

text \<open>
  C9. With the category \<^verbatim>\<open>'all'\<close> selected and the empty search query, the filtered list of
  scenarios is the list of scenarios itself: the same elements in the same order.
\<close>

theorem filteredScenarios_all_identity:
  "filteredScenarios scenarios ''all'' [] = scenarios"
  by (simp add: filteredScenarios_def toLowerCase_def includes_empty)

text \<open>The filter on a list with the first scenario of the component twice.\<close>

theorem filteredScenarios_all_identity_witness:
  "filteredScenarios [energyCrisisMode, energyCrisisMode] ''all'' []
     = [energyCrisisMode, energyCrisisMode]"
  using filteredScenarios_all_identity [of "[energyCrisisMode, energyCrisisMode]"]
  by simp

subsection \<open>C10: duplicating a scenario\<close>

text \<open>
  C10. \<open>handleDuplicateScenario\<close> puts one new scenario in front of the list and leaves
  the scenarios that were there as they were, the duplicated one among them. The new
  scenario has the name of the original followed by \<^verbatim>\<open>' (Copy)'\<close>, the status draft, no
  runs and a success rate of 0, a new id and fresh dates; its description, author,
  category, tags, parameters, expected results, average duration and last results are
  those of the original.
\<close>

theorem handleDuplicateScenario_copy:
  "(let new = handleDuplicateScenario now s prev in
     length new = Suc (length prev)
   \<and> tl new = prev
   \<and> SavedScenario.name (hd new) = SavedScenario.name s @ '' (Copy)''
   \<and> SavedScenario.status (hd new) = Draft
   \<and> runs (hd new) = 0
   \<and> successRate (hd new) = 0
   \<and> SavedScenario.description (hd new) = SavedScenario.description s
   \<and> author (hd new) = author s
   \<and> category (hd new) = category s
   \<and> tags (hd new) = tags s
   \<and> parameters (hd new) = parameters s
   \<and> expectedResults (hd new) = expectedResults s
   \<and> averageDuration (hd new) = averageDuration s
   \<and> lastResults (hd new) = lastResults s
   \<and> id' (hd new) = now
   \<and> created (hd new) = ''Just now''
   \<and> modified (hd new) = ''Just now'')"
  by (simp add: handleDuplicateScenario_def Let_def)

text \<open>Duplicating the first scenario of the component.\<close>

theorem handleDuplicateScenario_copy_witness:
  "SavedScenario.name (hd (handleDuplicateScenario ''1762176000000'' energyCrisisMode [energyCrisisMode]))
     = ''Energy Crisis Mode (Copy)''
   \<and> SavedScenario.status (hd (handleDuplicateScenario ''1762176000000'' energyCrisisMode
        [energyCrisisMode])) = Draft
   \<and> tags (hd (handleDuplicateScenario ''1762176000000'' energyCrisisMode [energyCrisisMode]))
     = [''energy'', ''efficiency'', ''crisis'']
   \<and> tl (handleDuplicateScenario ''1762176000000'' energyCrisisMode [energyCrisisMode])
     = [energyCrisisMode]"
  using handleDuplicateScenario_copy [of "''1762176000000''" energyCrisisMode "[energyCrisisMode]"]
  by (simp add: Let_def energyCrisisMode_def)

end
